theory Spec2Isabelle
  imports Main "HOL-Library.Sublist" "HOL-Library.Multiset"
    "HOL-Library.Char_ord" "HOL-Library.List_Lexorder"
begin

section \<open>Staged-diff report generator (lua/commit.py)\<close>

text \<open>
  A shallow embedding of \<^verbatim>\<open>lua/commit.py\<close>. Python strings are modelled as
  \<^typ>\<open>string\<close>, one list element per character of the Python string, so that
  \<^verbatim>\<open>len\<close> is \<^const>\<open>length\<close>; Python integers are \<^typ>\<open>int\<close>. The
  version-control tool, the filesystem and \<^verbatim>\<open>pathlib\<close> are outside the
  repository: their answers are fields of an environment record, and every call
  the program makes to them is logged as an event, in program order.
\<close>

subsection \<open>String helpers\<close>

definition nl :: string where
  "nl = [CHR 0x0A]"

text \<open>\<^verbatim>\<open>sep.join(xs)\<close>\<close>

fun join :: "string \<Rightarrow> string list \<Rightarrow> string" where
  "join sep [] = []"
| "join sep [x] = x"
| "join sep (x # y # ys) = x @ sep @ join sep (y # ys)"

definition digit_char :: "nat \<Rightarrow> char" where
  "digit_char d = char_of (48 + d)"

text \<open>\<^verbatim>\<open>str(n)\<close> of a non-negative integer, in decimal.\<close>

fun str_nat :: "nat \<Rightarrow> string" where
  "str_nat n = (if n < 10 then [digit_char n] else str_nat (n div 10) @ [digit_char (n mod 10)])"

declare str_nat.simps [simp del]

text \<open>\<^verbatim>\<open>str(i)\<close>, as the f-string \<^verbatim>\<open>{max_lines_per_file}\<close> renders an integer.\<close>

definition str_int :: "int \<Rightarrow> string" where
  "str_int i = (if i < 0 then CHR ''-'' # str_nat (nat (- i)) else str_nat (nat i))"

subsection \<open>\<^verbatim>\<open>format_status\<close>\<close>

definition status_map :: "string \<Rightarrow> string option" where
  "status_map = map_of
     [(''A'', ''Added''),
      (''M'', ''Modified''),
      (''D'', ''Deleted''),
      (''R'', ''Renamed''),
      (''C'', ''Copied''),
      (''T'', ''Type changed''),
      (''U'', ''Unmerged'')]"

text \<open>\<^verbatim>\<open>d.get(k, default)\<close>\<close>

definition dict_get :: "('k \<Rightarrow> 'v option) \<Rightarrow> 'k \<Rightarrow> 'v \<Rightarrow> 'v" where
  "dict_get d k dflt = (case d k of None \<Rightarrow> dflt | Some v \<Rightarrow> v)"

text \<open>
  \<^verbatim>\<open>status[0]\<close> is only evaluated under the \<^verbatim>\<open>startswith\<close> guard, where the
  string is non-empty; there it is \<^term>\<open>take 1 status\<close>.
\<close>

definition format_status :: "string \<Rightarrow> string" where
  "format_status status =
     (if prefix ''R'' status \<or> prefix ''C'' status then
        (let base_status = take 1 status in dict_get status_map base_status base_status)
      else dict_get status_map status status)"

subsection \<open>\<^verbatim>\<open>get_file_diff\<close>: the truncation step\<close>

definition is_marker_line :: "string \<Rightarrow> bool" where
  "is_marker_line line \<longleftrightarrow> prefix ''@@'' line \<or> prefix ''+++'' line \<or> prefix ''---'' line"

text \<open>
  The \<^verbatim>\<open>for i, line in enumerate(diff_lines)\<close> loop. The second argument is the
  part of \<^verbatim>\<open>diff_lines\<close> from index \<open>i\<close> on, so that \<^verbatim>\<open>diff_lines[i:]\<close> is
  the line at hand followed by the rest; the result is
  \<^verbatim>\<open>(header_lines, content_lines)\<close>.
\<close>

fun split_lines :: "nat \<Rightarrow> string list \<Rightarrow> string list \<Rightarrow> string list \<Rightarrow> string list \<times> string list" where
  "split_lines i [] header_lines content_lines = (header_lines, content_lines)"
| "split_lines i (line # rest) header_lines content_lines =
     (if is_marker_line line then
        (if length header_lines < 10 then split_lines (Suc i) rest (header_lines @ [line]) content_lines
         else (header_lines, content_lines @ (line # rest)))
      else if i < 10 then split_lines (Suc i) rest (header_lines @ [line]) content_lines
      else split_lines (Suc i) rest header_lines (content_lines @ [line]))"

definition truncation_marker :: "int \<Rightarrow> string" where
  "truncation_marker max_lines_per_file =
     ''... (diff truncated at '' @ str_int max_lines_per_file @ '' lines)''"

text \<open>
  The body of \<^verbatim>\<open>get_file_diff\<close> after \<^verbatim>\<open>splitlines()\<close>. The slice
  \<^verbatim>\<open>content_lines[:remaining_lines]\<close> is taken only under the guard
  \<^verbatim>\<open>remaining_lines > 0\<close>, where it is \<^const>\<open>take\<close>.
\<close>

definition truncate_diff :: "string list \<Rightarrow> int \<Rightarrow> string list" where
  "truncate_diff diff_lines max_lines_per_file =
     (if int (length diff_lines) > max_lines_per_file then
        (let (header_lines, content_lines) = split_lines 0 diff_lines [] [];
             remaining_lines = max_lines_per_file - int (length header_lines) - 1;
             content_lines' = (if remaining_lines > 0 then take (nat remaining_lines) content_lines
                               else content_lines)
         in header_lines @ content_lines' @ [truncation_marker max_lines_per_file])
      else diff_lines)"

text \<open>
  The subprocess call: \<open>None\<close> is \<^verbatim>\<open>CalledProcessError\<close>, \<open>Some ls\<close> the
  output after \<^verbatim>\<open>splitlines()\<close>.
\<close>

definition get_file_diff_of :: "string list option \<Rightarrow> int \<Rightarrow> string list" where
  "get_file_diff_of diff_output max_lines_per_file =
     (case diff_output of
        None \<Rightarrow> []
      | Some diff_lines \<Rightarrow> truncate_diff diff_lines max_lines_per_file)"

subsection \<open>The environment and the events\<close>

text \<open>
  What the program asks of the outside world. Each field is the answer to one
  kind of call; the program's own functions below are defined on top of them.
  \<^item> \<open>get_repo_root\<close>: the result of \<^verbatim>\<open>get_repo_root()\<close>, \<open>None\<close> when
    \<^verbatim>\<open>git rev-parse --show-toplevel\<close> fails;
  \<^item> \<open>get_staged_changes\<close>: the \<^verbatim>\<open>(status, filepath)\<close> pairs that
    \<^verbatim>\<open>get_staged_changes()\<close> returns;
  \<^item> \<open>git_diff\<close>: \<^verbatim>\<open>git diff --cached --unified=N -- path\<close>, split into lines,
    \<open>None\<close> when the call fails;
  \<^item> \<open>get_file_stats\<close>: the string \<^verbatim>\<open>get_file_stats(path)\<close> returns;
  \<^item> \<open>path_match\<close>: \<^verbatim>\<open>Path(filepath).match(pattern)\<close>, which returns a boolean
    or raises \<^verbatim>\<open>ValueError\<close> (on the empty pattern); the program does not catch
    it;
  \<^item> \<open>path_suffix\<close>: \<^verbatim>\<open>Path(filepath).suffix\<close>; \<open>str_lower\<close>: \<^verbatim>\<open>str.lower\<close>;
  \<^item> \<open>join_posix\<close>: \<^verbatim>\<open>(repo_root / filepath).as_posix()\<close>;
  \<^item> \<open>path_exists\<close>, \<open>path_is_dir\<close>, \<open>is_binary_file\<close>: the filesystem probes,
    on the absolute path.
\<close>

text \<open>The exception that leaves the functions below.\<close>

datatype error = ValueError

record env =
  get_repo_root :: "string option"
  get_staged_changes :: "(string \<times> string) list"
  git_diff :: "int \<Rightarrow> string \<Rightarrow> string list option"
  get_file_stats :: "string \<Rightarrow> string"
  path_match :: "string \<Rightarrow> string \<Rightarrow> error + bool"
  path_suffix :: "string \<Rightarrow> string"
  str_lower :: "string \<Rightarrow> string"
  join_posix :: "string \<Rightarrow> string \<Rightarrow> string"
  path_exists :: "string \<Rightarrow> bool"
  path_is_dir :: "string \<Rightarrow> bool"
  is_binary_file :: "string \<Rightarrow> bool"

datatype event =
    RevParse
  | ListStaged
  | Print string
  | Exists string
  | IsDir string
  | IsBinary string
  | Numstat string
  | Diff int string

definition get_file_diff :: "env \<Rightarrow> string \<Rightarrow> int \<Rightarrow> int \<Rightarrow> string list" where
  "get_file_diff e filepath max_lines_per_file context_lines =
     get_file_diff_of (git_diff e context_lines filepath) max_lines_per_file"

subsection \<open>\<^verbatim>\<open>should_include_file\<close>\<close>

text \<open>
  The \<^verbatim>\<open>for pattern in exclude_patterns\<close> loop: \<open>Inr True\<close> when it returns
  (the function then returns \<^verbatim>\<open>False\<close>), \<open>Inr False\<close> when it runs to its end,
  \<open>Inl\<close> when a match raises.
\<close>

primrec exclude_loop :: "env \<Rightarrow> string \<Rightarrow> string list \<Rightarrow> error + bool" where
  "exclude_loop e filepath [] = Inr False"
| "exclude_loop e filepath (pattern # rest) =
     (case path_match e filepath pattern of
        Inl err \<Rightarrow> Inl err
      | Inr matched \<Rightarrow> (if matched then Inr True else exclude_loop e filepath rest))"

text \<open>
  \<^verbatim>\<open>any(path.match(pattern) for pattern in include_patterns)\<close>: the generator is
  consumed up to the first true value, or up to the first match that raises.
\<close>

primrec any_match :: "env \<Rightarrow> string \<Rightarrow> string list \<Rightarrow> error + bool" where
  "any_match e filepath [] = Inr False"
| "any_match e filepath (pattern # rest) =
     (case path_match e filepath pattern of
        Inl err \<Rightarrow> Inl err
      | Inr matched \<Rightarrow> (if matched then Inr True else any_match e filepath rest))"

definition should_include_file :: "env \<Rightarrow> string \<Rightarrow> string list \<Rightarrow> string list \<Rightarrow> error + bool" where
  "should_include_file e filepath include_patterns exclude_patterns =
     (case exclude_loop e filepath exclude_patterns of
        Inl err \<Rightarrow> Inl err
      | Inr returned \<Rightarrow>
          (if returned then Inr False
           else if include_patterns \<noteq> [] then any_match e filepath include_patterns
           else Inr True))"

subsection \<open>\<^verbatim>\<open>get_staged_diff\<close>\<close>

record config =
  max_lines_per_file :: int
  context_lines :: int
  include_stats :: bool
  include_patterns :: "string list option"
  exclude_patterns :: "string list option"
  group_by_type :: bool

definition default_exclude_patterns :: "string list" where
  "default_exclude_patterns =
     [''*.pyc'', ''*.pyo'', ''__pycache__/*'', ''.git/*'', ''*.so'', ''*.dylib'', ''*.dll'']"

text \<open>\<^verbatim>\<open>patterns or default\<close>: \<open>None\<close> and the empty list are both falsy.\<close>

definition or_default :: "string list option \<Rightarrow> string list \<Rightarrow> string list" where
  "or_default patterns dflt =
     (case patterns of None \<Rightarrow> dflt | Some ps \<Rightarrow> (if ps = [] then dflt else ps))"

text \<open>
  The three filesystem conditions of the loop body, with the probes each one
  makes: \<^verbatim>\<open>and\<close> evaluates its right operand only when the left one is true.
\<close>

definition dir_probes :: "env \<Rightarrow> string \<Rightarrow> event list" where
  "dir_probes e p = (if path_exists e p then [Exists p, IsDir p] else [Exists p])"

definition binary_probes :: "env \<Rightarrow> string \<Rightarrow> event list" where
  "binary_probes e p = (if path_exists e p then [Exists p, IsBinary p] else [Exists p])"

text \<open>
  One pass of the loop body for a path that is not yet in
  \<^verbatim>\<open>processed_files\<close>: the elements appended to \<^verbatim>\<open>output\<close> and the events,
  in order.
\<close>

definition file_block :: "env \<Rightarrow> config \<Rightarrow> string \<Rightarrow> string \<Rightarrow> string \<Rightarrow> string list \<times> event list" where
  "file_block e cfg repo_root status filepath =
     (let absolute_path = join_posix e repo_root filepath in
      if \<not> path_exists e absolute_path \<and> CHR ''D'' \<notin> set status then
        ([nl @ ''File not found: '' @ filepath @ '' ('' @ format_status status @ '')''],
         [Print absolute_path, Exists absolute_path])
      else if path_exists e absolute_path \<and> path_is_dir e absolute_path then
        ([nl @ ''Directory '' @ format_status status @ '': '' @ filepath],
         [Print absolute_path, Exists absolute_path] @ dir_probes e absolute_path)
      else if path_exists e absolute_path \<and> is_binary_file e absolute_path then
        (let stats = (if include_stats cfg then get_file_stats e filepath else '''')
         in ([nl @ ''Binary file '' @ format_status status @ '': '' @ filepath @ '' '' @ stats],
             [Print absolute_path, Exists absolute_path] @ dir_probes e absolute_path
               @ binary_probes e absolute_path
               @ (if include_stats cfg then [Numstat filepath] else [])))
      else
        (let stats = (if include_stats cfg then get_file_stats e absolute_path else '''');
             file_header = nl @ absolute_path @ '' ('' @ format_status status @ '') '' @ stats;
             diff_lines = get_file_diff e absolute_path (max_lines_per_file cfg) (context_lines cfg)
         in ([file_header, replicate (min (length file_header) 80) CHR ''-'']
               @ (if diff_lines \<noteq> [] then diff_lines else [''No diff available.''])
               @ [''''],
             [Print absolute_path, Exists absolute_path] @ dir_probes e absolute_path
               @ binary_probes e absolute_path
               @ (if include_stats cfg then [Numstat absolute_path] else [])
               @ [Diff (context_lines cfg) absolute_path])))"

text \<open>The loop's variables; \<open>output_lines\<close> is the list \<^verbatim>\<open>output\<close>.\<close>

record loop_state =
  output_lines :: "string list"
  processed_files :: "string set"
  trace :: "event list"

text \<open>The \<^verbatim>\<open>for status, filepath in filtered_changes\<close> loop.\<close>

fun file_loop :: "env \<Rightarrow> config \<Rightarrow> string \<Rightarrow> (string \<times> string) list \<Rightarrow> loop_state \<Rightarrow> loop_state" where
  "file_loop e cfg repo_root [] st = st"
| "file_loop e cfg repo_root ((status, filepath) # rest) st =
     (if filepath \<in> processed_files st then file_loop e cfg repo_root rest st
      else
        (let (lines, events) = file_block e cfg repo_root status filepath
         in file_loop e cfg repo_root rest
              \<lparr>output_lines = output_lines st @ lines,
               processed_files = insert filepath (processed_files st),
               trace = trace st @ events\<rparr>))"

text \<open>
  The keys of \<^verbatim>\<open>by_type\<close>: \<^verbatim>\<open>Path(filepath).suffix.lower() or 'no_extension'\<close>
  for each change.
\<close>

definition file_ext :: "env \<Rightarrow> string \<Rightarrow> string" where
  "file_ext e filepath =
     (let ext = str_lower e (path_suffix e filepath) in if ext = [] then ''no_extension'' else ext)"

definition file_types_line :: "env \<Rightarrow> (string \<times> string) list \<Rightarrow> string" where
  "file_types_line e filtered_changes =
     nl @ ''File types: '' @ join '', '' (sort (remdups (map (\<lambda>(status, filepath). file_ext e filepath) filtered_changes)))"

text \<open>
  The list comprehension that builds \<^verbatim>\<open>filtered_changes\<close>: the changes are
  tested in order, and an exception of \<^verbatim>\<open>should_include_file\<close> ends it.
\<close>

fun filter_changes :: "env \<Rightarrow> string list \<Rightarrow> string list \<Rightarrow> (string \<times> string) list
    \<Rightarrow> error + (string \<times> string) list" where
  "filter_changes e includes excludes [] = Inr []"
| "filter_changes e includes excludes ((status, filepath) # rest) =
     (case should_include_file e filepath includes excludes of
        Inl err \<Rightarrow> Inl err
      | Inr keep \<Rightarrow>
          (case filter_changes e includes excludes rest of
             Inl err \<Rightarrow> Inl err
           | Inr kept \<Rightarrow> Inr (if keep then (status, filepath) # kept else kept)))"

text \<open>
  The outcome of the call (\<open>Inr\<close> the returned report, \<open>Inl\<close> the exception that
  leaves it) and the events of the call, in order.
\<close>

definition get_staged_diff :: "env \<Rightarrow> config \<Rightarrow> (error + string) \<times> event list" where
  "get_staged_diff e cfg =
     (let include_patterns = or_default (include_patterns cfg) [];
          exclude_patterns = or_default (exclude_patterns cfg) default_exclude_patterns
      in case get_repo_root e of
           None \<Rightarrow> (Inr ''Error: Not in a git repository.'', [RevParse])
         | Some repo_root \<Rightarrow>
             (let output0 = [''=== Staged Changes Summary ===''];
                  staged_changes = get_staged_changes e
              in if staged_changes = [] then
                   (Inr (join nl (output0 @ [''No staged changes found.''])), [RevParse, ListStaged])
                 else
                   (case filter_changes e include_patterns exclude_patterns staged_changes of
                      Inl err \<Rightarrow> (Inl err, [RevParse, ListStaged])
                    | Inr filtered_changes \<Rightarrow>
                        if filtered_changes = [] then
                          (Inr (join nl (output0 @ [''No files match the specified patterns.''])),
                           [RevParse, ListStaged])
                        else
                          (let output1 = output0
                                 @ (if group_by_type cfg then [file_types_line e filtered_changes] else [])
                                 @ [nl @ ''Total files: '' @ str_nat (length filtered_changes)]
                                 @ [replicate 50 CHR ''=''];
                               st = file_loop e cfg repo_root filtered_changes
                                      \<lparr>output_lines = output1, processed_files = {}, trace = [RevParse, ListStaged]\<rparr>
                           in (Inr (join nl (output_lines st)), trace st)))))"

text \<open>
  The changes the loop gives a block to: each path at its first occurrence,
  paths in \<open>seen\<close> left out.
\<close>

fun first_occurrences :: "string set \<Rightarrow> (string \<times> string) list \<Rightarrow> (string \<times> string) list" where
  "first_occurrences seen [] = []"
| "first_occurrences seen ((status, filepath) # rest) =
     (if filepath \<in> seen then first_occurrences seen rest
      else (status, filepath) # first_occurrences (insert filepath seen) rest)"

text \<open>The events that fetch data from the version-control tool for one file.\<close>

fun is_fetch :: "event \<Rightarrow> bool" where
  "is_fetch (Numstat p) = True"
| "is_fetch (Diff n p) = True"
| "is_fetch ev = False"

text \<open>The same environment with every path an existing text file.\<close>

definition as_text_files :: "env \<Rightarrow> env" where
  "as_text_files e =
     e\<lparr>path_exists := (\<lambda>p. True), path_is_dir := (\<lambda>p. False), is_binary_file := (\<lambda>p. False)\<rparr>"

subsection \<open>A concrete repository\<close>

text \<open>
  A small environment for evaluating the definitions: a repository at \<open>/r\<close> with a
  modified \<open>a.py\<close> (listed twice) and a deleted \<open>old.py\<close> that is no longer on
  disk. Its pattern matcher only knows literal patterns and \<open>*.py\<close>, and raises
  on the empty pattern.
\<close>

definition demo_diff :: "string list" where
  "demo_diff =
     [''diff --git a/a.py b/a.py'',
      ''--- a/a.py'',
      ''+++ b/a.py'',
      ''@@ -1 +1 @@'',
      ''-x'',
      ''+y'']"

definition demo_long_diff :: "string list" where
  "demo_long_diff =
     demo_diff @ [''@@ -9 +9 @@'', ''-a'', ''+b'', '' c'', ''@@ -20 +20 @@'', ''-d'', ''+e'']"

definition demo_env :: env where
  "demo_env =
     \<lparr>get_repo_root = Some ''/r'',
      get_staged_changes = [(''M'', ''a.py''), (''D'', ''old.py''), (''R100'', ''a.py'')],
      git_diff = (\<lambda>n p. if p = ''/r/a.py'' then Some demo_diff
                         else if p = ''/r/old.py'' then Some [''--- a/old.py'', ''+++ /dev/null'', ''@@ -1 +0,0 @@'', ''-x'']
                         else None),
      get_file_stats = (\<lambda>p. if p = ''/r/a.py'' then ''(+1/-1)''
                              else if p = ''/r/old.py'' then ''(+0/-1)'' else ''''),
      path_match = (\<lambda>filepath pattern.
                      if pattern = '''' then Inl ValueError
                      else Inr (pattern = filepath
                                \<or> pattern = ''*.py'' \<and> drop (length filepath - 3) filepath = ''.py'')),
      path_suffix = (\<lambda>filepath. dropWhile (\<lambda>c. c \<noteq> CHR ''.'') filepath),
      str_lower = (\<lambda>s. s),
      join_posix = (\<lambda>root filepath. root @ ''/'' @ filepath),
      path_exists = (\<lambda>p. p = ''/r/a.py''),
      path_is_dir = (\<lambda>p. False),
      is_binary_file = (\<lambda>p. False)\<rparr>"

definition demo_config :: config where
  "demo_config =
     \<lparr>max_lines_per_file = 100, context_lines = 3, include_stats = False,
      include_patterns = None, exclude_patterns = None, group_by_type = False\<rparr>"

section \<open>Properties\<close>

subsection \<open>Truncation\<close>

lemma split_lines_full:
  "length h = 10 \<Longrightarrow> 10 \<le> i \<Longrightarrow> split_lines i ls h c = (h, c @ ls)"
  by (induction ls arbitrary: i c) auto

lemma split_lines_gen:
  "length h = i \<Longrightarrow> i \<le> 10 \<Longrightarrow>
     split_lines i ls h [] = (h @ take (10 - i) ls, drop (10 - i) ls)"
proof (induction ls arbitrary: i h)
  case Nil
  then show ?case by simp
next
  case (Cons l ls)
  show ?case
  proof (cases "i < 10")
    case True
    with Cons.prems have "split_lines i (l # ls) h [] = split_lines (Suc i) ls (h @ [l]) []"
      by simp
    also have "\<dots> = ((h @ [l]) @ take (10 - Suc i) ls, drop (10 - Suc i) ls)"
      using Cons.prems True by (intro Cons.IH) auto
    also have "\<dots> = (h @ take (Suc (10 - Suc i)) (l # ls), drop (Suc (10 - Suc i)) (l # ls))"
      by simp
    also have "Suc (10 - Suc i) = 10 - i"
      using True by simp
    finally show ?thesis .
  next
    case False
    with Cons.prems have "i = 10" by simp
    with Cons.prems show ?thesis
      using split_lines_full [of h i "l # ls" "[]"] by simp
  qed
qed

text \<open>
  The loop keeps the first ten lines as header and the rest as content, whatever
  the lines are: a marker line among the first ten finds fewer than ten header
  lines, and one after them finds the header full.
\<close>

lemma split_lines_start: "split_lines 0 ls [] [] = (take 10 ls, drop 10 ls)"
  using split_lines_gen [of "[]" 0 ls] by simp

lemma length_demo_long_diff: "length demo_long_diff = 13"
  by (simp add: demo_long_diff_def demo_diff_def)

text \<open>
  C1 (as amended). For a diff with more lines than the budget, the emitted lines
  always begin with all header lines and end with the marker. When the remaining
  budget \<open>max_lines_per_file - len(header_lines) - 1\<close> is positive, the content
  is cut to at most that many lines and the emitted lines, marker included, number
  at most \<open>max_lines_per_file\<close>.
\<close>

theorem truncate_diff_within_budget:
  assumes "int (length diff_lines) > m"
    and "split_lines 0 diff_lines [] [] = (header_lines, content_lines)"
  shows "prefix header_lines (truncate_diff diff_lines m)
       \<and> last (truncate_diff diff_lines m) = truncation_marker m
       \<and> (m - int (length header_lines) - 1 > 0 \<longrightarrow>
            truncate_diff diff_lines m =
              header_lines @ take (nat (m - int (length header_lines) - 1)) content_lines
                @ [truncation_marker m]
          \<and> int (length (take (nat (m - int (length header_lines) - 1)) content_lines))
              \<le> m - int (length header_lines) - 1
          \<and> int (length (truncate_diff diff_lines m)) \<le> m)"
  using assms by (auto simp: truncate_diff_def)

theorem truncate_diff_within_budget_witness:
  "int (length demo_long_diff) > 12
   \<and> split_lines 0 demo_long_diff [] [] = (take 10 demo_long_diff, drop 10 demo_long_diff)
   \<and> 12 - int (length (take 10 demo_long_diff)) - 1 > 0
   \<and> truncate_diff demo_long_diff 12 =
       take 10 demo_long_diff @ [''@@ -20 +20 @@''] @ [truncation_marker 12]
   \<and> int (length (truncate_diff demo_long_diff 12)) \<le> 12"
proof -
  have a: "int (length demo_long_diff) > 12"
    by (simp add: length_demo_long_diff)
  have b: "split_lines 0 demo_long_diff [] [] = (take 10 demo_long_diff, drop 10 demo_long_diff)"
    by (rule split_lines_start)
  have c: "12 - int (length (take 10 demo_long_diff)) - 1 > 0"
    by (simp add: length_demo_long_diff)
  have d: "take (nat (12 - int (length (take 10 demo_long_diff)) - 1)) (drop 10 demo_long_diff)
             = [''@@ -20 +20 @@'']"
    by (simp add: demo_long_diff_def demo_diff_def)
  from truncate_diff_within_budget [OF a b] a b c d show ?thesis
    by simp
qed

text \<open>
  The claim as stated fails twice. With a budget of 5, the six lines of
  \<open>demo_diff\<close> are all header lines and seven lines are emitted. With a budget
  of 11, the remaining budget for the thirteen lines of \<open>demo_long_diff\<close> is 0,
  yet the three content lines are kept and fourteen lines are emitted.
\<close>

theorem truncate_diff_budget_counterexample:
  "int (length demo_diff) > 5 \<and> (0::int) < 5
   \<and> \<not> int (length (truncate_diff demo_diff 5)) \<le> 5
   \<and> int (length demo_long_diff) > 11
   \<and> split_lines 0 demo_long_diff [] [] = (take 10 demo_long_diff, drop 10 demo_long_diff)
   \<and> 11 - int (length (take 10 demo_long_diff)) - 1 \<le> 0
   \<and> truncate_diff demo_long_diff 11 =
        take 10 demo_long_diff @ drop 10 demo_long_diff @ [truncation_marker 11]
   \<and> drop 10 demo_long_diff \<noteq> []
   \<and> \<not> int (length (truncate_diff demo_long_diff 11)) \<le> 11"
proof -
  have a: "length demo_diff = 6"
    by (simp add: demo_diff_def)
  have b: "truncate_diff demo_diff 5 = demo_diff @ [truncation_marker 5]"
    by (simp add: truncate_diff_def split_lines_start a)
  have c: "truncate_diff demo_long_diff 11 =
             take 10 demo_long_diff @ drop 10 demo_long_diff @ [truncation_marker 11]"
    by (simp add: truncate_diff_def split_lines_start length_demo_long_diff)
  have d: "drop 10 demo_long_diff \<noteq> []"
    by (simp add: length_demo_long_diff)
  show ?thesis
    unfolding b c by (simp add: a d length_demo_long_diff split_lines_start)
qed

text \<open>
  C2. When the diff has no more lines than the budget, \<open>get_file_diff\<close> returns
  the lines of the diff as they are, with no marker appended.
\<close>

theorem get_file_diff_verbatim:
  "git_diff e n filepath = Some diff_lines \<Longrightarrow> int (length diff_lines) \<le> m \<Longrightarrow>
     get_file_diff e filepath m n = diff_lines"
  by (simp add: get_file_diff_def get_file_diff_of_def truncate_diff_def)

theorem get_file_diff_verbatim_witness:
  "git_diff demo_env 3 ''/r/a.py'' = Some demo_diff \<and> int (length demo_diff) \<le> 100
   \<and> get_file_diff demo_env ''/r/a.py'' 100 3 = demo_diff"
proof -
  have a: "git_diff demo_env 3 ''/r/a.py'' = Some demo_diff"
    by (simp add: demo_env_def)
  have b: "int (length demo_diff) \<le> 100"
    by (simp add: demo_diff_def)
  from get_file_diff_verbatim [OF a b] a b show ?thesis
    by simp
qed

subsection \<open>Status labels\<close>

text \<open>
  C6 (as amended). \<open>format_status\<close> has no failing branch. Each of the seven
  codes maps to its label, \<open>R\<close> or \<open>C\<close> followed by digits maps to the label of
  the first letter, and a code that is none of \<open>A\<close>, \<open>M\<close>, \<open>D\<close>, \<open>T\<close>, \<open>U\<close>
  and does not begin with \<open>R\<close> or \<open>C\<close> is returned unchanged.
\<close>

theorem format_status_labels:
  "format_status ''A'' = ''Added'' \<and> format_status ''M'' = ''Modified''
   \<and> format_status ''D'' = ''Deleted'' \<and> format_status ''R'' = ''Renamed''
   \<and> format_status ''C'' = ''Copied'' \<and> format_status ''T'' = ''Type changed''
   \<and> format_status ''U'' = ''Unmerged''
   \<and> (set ds \<subseteq> set ''0123456789'' \<longrightarrow>
        format_status (CHR ''R'' # ds) = ''Renamed'' \<and> format_status (CHR ''C'' # ds) = ''Copied'')
   \<and> (s \<notin> {''A'', ''M'', ''D'', ''T'', ''U''} \<and> \<not> prefix ''R'' s \<and> \<not> prefix ''C'' s \<longrightarrow>
        format_status s = s)"
  by (simp add: format_status_def dict_get_def status_map_def)

theorem format_status_labels_witness:
  "set ''100'' \<subseteq> set ''0123456789''
   \<and> format_status ''R100'' = ''Renamed'' \<and> format_status ''C100'' = ''Copied''
   \<and> ''X'' \<notin> {''A'', ''M'', ''D'', ''T'', ''U''} \<and> \<not> prefix ''R'' ''X'' \<and> \<not> prefix ''C'' ''X''
   \<and> format_status ''X'' = ''X''"
  using format_status_labels [of "''100''" "''X''"] by simp

text \<open>
  The code \<open>Rxyz\<close> is none of the seven codes and is not \<open>R\<close> followed by
  digits, yet it is not returned unchanged.
\<close>

theorem format_status_unknown_counterexample:
  "''Rxyz'' \<notin> {''A'', ''M'', ''D'', ''R'', ''C'', ''T'', ''U''}
   \<and> \<not> set ''xyz'' \<subseteq> set ''0123456789''
   \<and> format_status ''Rxyz'' \<noteq> ''Rxyz''"
  by (simp add: format_status_def dict_get_def status_map_def)

text \<open>
  C10. A status that begins with \<open>R\<close> is labelled \<open>Renamed\<close> and one that begins
  with \<open>C\<close> is labelled \<open>Copied\<close>, whatever follows the first character.
\<close>

theorem format_status_first_letter:
  "format_status (CHR ''R'' # rest) = ''Renamed'' \<and> format_status (CHR ''C'' # rest) = ''Copied''"
  by (simp add: format_status_def dict_get_def status_map_def)

subsection \<open>Pattern filter\<close>

lemma exclude_loop_first_match:
  "\<forall>q \<in> set pre. path_match e f q \<noteq> Inl ValueError \<Longrightarrow> path_match e f p = Inr True \<Longrightarrow>
     exclude_loop e f (pre @ p # post) = Inr True"
proof (induction pre)
  case Nil
  then show ?case by simp
next
  case (Cons q pre)
  from Cons.prems obtain b where "path_match e f q = Inr b"
    by (cases "path_match e f q") (auto intro: error.exhaust)
  with Cons show ?case by simp
qed

lemma exclude_loop_no_raise:
  "\<forall>q \<in> set ps. path_match e f q \<noteq> Inl ValueError \<Longrightarrow>
     exclude_loop e f ps = Inr (\<exists>p \<in> set ps. path_match e f p = Inr True)"
proof (induction ps)
  case Nil
  then show ?case by simp
next
  case (Cons q ps)
  from Cons.prems obtain b where "path_match e f q = Inr b"
    by (cases "path_match e f q") (auto intro: error.exhaust)
  with Cons show ?case by auto
qed

text \<open>
  C5 (as amended). A path that matches an exclude pattern is not included,
  whatever the include patterns are, provided the matcher raises on none of the
  exclude patterns before it; and when the matcher raises on none of the exclude
  patterns, reordering them does not change the result.
\<close>

theorem should_include_file_exclude_wins:
  "(excl = pre @ p # post \<and> (\<forall>q \<in> set pre. path_match e f q \<noteq> Inl ValueError)
      \<and> path_match e f p = Inr True \<longrightarrow>
        should_include_file e f incl excl = Inr False)
   \<and> ((\<forall>q \<in> set excl. path_match e f q \<noteq> Inl ValueError) \<and> mset excl' = mset excl \<longrightarrow>
        should_include_file e f incl excl' = should_include_file e f incl excl)"
proof -
  have "should_include_file e f incl excl' = should_include_file e f incl excl"
    if ok: "\<forall>q \<in> set excl. path_match e f q \<noteq> Inl ValueError" and perm: "mset excl' = mset excl"
  proof -
    have eq: "set excl' = set excl"
      using perm by (metis set_mset_mset)
    with ok have ok': "\<forall>q \<in> set excl'. path_match e f q \<noteq> Inl ValueError"
      by simp
    show ?thesis
      unfolding should_include_file_def exclude_loop_no_raise [OF ok] exclude_loop_no_raise [OF ok'] eq
      by (rule refl)
  qed
  then show ?thesis
    by (auto simp: should_include_file_def exclude_loop_first_match)
qed

theorem should_include_file_exclude_wins_witness:
  "[''x'', ''*.py''] = [''x''] @ ''*.py'' # []
   \<and> path_match demo_env ''a.py'' ''x'' = Inr False
   \<and> path_match demo_env ''a.py'' ''*.py'' = Inr True
   \<and> path_match demo_env ''a.py'' ''a.py'' = Inr True
   \<and> should_include_file demo_env ''a.py'' [''a.py''] [''x'', ''*.py''] = Inr False
   \<and> mset [''*.py'', ''x''] = mset [''x'', ''*.py'']
   \<and> should_include_file demo_env ''a.py'' [''a.py''] [''*.py'', ''x'']
       = should_include_file demo_env ''a.py'' [''a.py''] [''x'', ''*.py'']"
  using should_include_file_exclude_wins
          [of "[''x'', ''*.py'']" "[''x'']" "''*.py''" "[]" demo_env "''a.py''" "[''a.py'']"
              "[''*.py'', ''x'']"]
  by (simp add: demo_env_def)

text \<open>
  The path \<open>a.py\<close> matches the exclude pattern \<open>*.py\<close>. With the empty pattern
  listed before it the call raises instead of returning false, and with the two
  patterns in the other order it returns false: the outcome depends on the order.
\<close>

theorem should_include_file_exclude_counterexample:
  "path_match demo_env ''a.py'' ''*.py'' = Inr True
   \<and> should_include_file demo_env ''a.py'' [] ['''', ''*.py''] = Inl ValueError
   \<and> should_include_file demo_env ''a.py'' [] ['''', ''*.py''] \<noteq> Inr False
   \<and> mset [''*.py'', ''''] = mset ['''', ''*.py'']
   \<and> should_include_file demo_env ''a.py'' [] [''*.py'', ''''] = Inr False
   \<and> should_include_file demo_env ''a.py'' [] [''*.py'', '''']
        \<noteq> should_include_file demo_env ''a.py'' [] ['''', ''*.py'']"
  by (simp add: should_include_file_def demo_env_def)

subsection \<open>Repository lookup\<close>

text \<open>
  C4. When the repository root is not found, \<open>get_staged_diff\<close> returns exactly
  \<open>Error: Not in a git repository.\<close> and the root lookup is the only call it has
  made: nothing is listed, filtered or fetched.
\<close>

theorem get_staged_diff_no_repository:
  "get_repo_root e = None \<Longrightarrow>
     get_staged_diff e cfg = (Inr ''Error: Not in a git repository.'', [RevParse])"
  by (simp add: get_staged_diff_def)

theorem get_staged_diff_no_repository_witness:
  "get_repo_root (demo_env\<lparr>get_repo_root := None\<rparr>) = None
   \<and> get_staged_diff (demo_env\<lparr>get_repo_root := None\<rparr>) demo_config
       = (Inr ''Error: Not in a git repository.'', [RevParse])"
  using get_staged_diff_no_repository [of "demo_env\<lparr>get_repo_root := None\<rparr>" demo_config]
  by simp

subsection \<open>Per-file blocks\<close>

text \<open>
  The text branch of the loop body is reached by a file that exists and is
  neither a directory nor binary, and by a missing file whose status contains
  \<open>D\<close>.
\<close>

lemma file_block_text:
  assumes "path_exists e (join_posix e root fp) \<and> \<not> path_is_dir e (join_posix e root fp)
             \<and> \<not> is_binary_file e (join_posix e root fp)
           \<or> \<not> path_exists e (join_posix e root fp) \<and> CHR ''D'' \<in> set status"
  shows "file_block e cfg root status fp =
     (let absolute_path = join_posix e root fp;
          stats = (if include_stats cfg then get_file_stats e absolute_path else '''');
          file_header = nl @ absolute_path @ '' ('' @ format_status status @ '') '' @ stats;
          diff_lines = get_file_diff e absolute_path (max_lines_per_file cfg) (context_lines cfg)
      in ([file_header, replicate (min (length file_header) 80) CHR ''-'']
            @ (if diff_lines \<noteq> [] then diff_lines else [''No diff available.''])
            @ [''''],
          [Print absolute_path, Exists absolute_path] @ dir_probes e absolute_path
            @ binary_probes e absolute_path
            @ (if include_stats cfg then [Numstat absolute_path] else [])
            @ [Diff (context_lines cfg) absolute_path]))"
  using assms unfolding file_block_def Let_def by auto


lemma format_status_D: "format_status ''D'' = ''Deleted''"
  by (simp add: format_status_def dict_get_def status_map_def)

lemma format_status_M: "format_status ''M'' = ''Modified''"
  by (simp add: format_status_def dict_get_def status_map_def)

lemma format_status_AD: "format_status ''AD'' = ''AD''"
  by (simp add: format_status_def dict_get_def status_map_def)

lemma demo_env_simps:
  "join_posix demo_env root fp = root @ ''/'' @ fp"
  "path_exists demo_env p \<longleftrightarrow> p = ''/r/a.py''"
  "path_is_dir demo_env p \<longleftrightarrow> False"
  "is_binary_file demo_env p \<longleftrightarrow> False"
  "git_diff demo_env n ''/r/a.py'' = Some demo_diff"
  "git_diff demo_env n ''/r/old.py'' = Some [''--- a/old.py'', ''+++ /dev/null'', ''@@ -1 +0,0 @@'', ''-x'']"
  "git_diff demo_env n ''/r/zz.py'' = None"
  by (simp_all add: demo_env_def)

lemma demo_config_simps:
  "max_lines_per_file demo_config = 100"
  "context_lines demo_config = 3"
  "include_stats demo_config = False"
  "group_by_type demo_config = False"
  by (simp_all add: demo_config_def)




text \<open>
  C8. A file with status \<open>D\<close> that is missing from disk gets the block of a text
  file: header, separator, diff (or the no-diff line) and a blank line, after the
  stats fetch (when stats are on) and the diff fetch. The block is not the
  \<open>File not found\<close> line, and both its lines and its fetches are those the same
  change gets when the path is an existing text file.
\<close>

theorem deleted_missing_file_is_diffed:
  assumes "\<not> path_exists e (join_posix e root fp)"
  shows "file_block e cfg root ''D'' fp =
     (let absolute_path = join_posix e root fp;
          stats = (if include_stats cfg then get_file_stats e absolute_path else '''');
          file_header = nl @ absolute_path @ '' (Deleted) '' @ stats;
          diff_lines = get_file_diff e absolute_path (max_lines_per_file cfg) (context_lines cfg)
      in ([file_header, replicate (min (length file_header) 80) CHR ''-'']
            @ (if diff_lines \<noteq> [] then diff_lines else [''No diff available.''])
            @ [''''],
          [Print absolute_path, Exists absolute_path, Exists absolute_path, Exists absolute_path]
            @ (if include_stats cfg then [Numstat absolute_path] else [])
            @ [Diff (context_lines cfg) absolute_path]))
    \<and> fst (file_block e cfg root ''D'' fp)
         \<noteq> [nl @ ''File not found: '' @ fp @ '' ('' @ format_status ''D'' @ '')'']
    \<and> fst (file_block e cfg root ''D'' fp) = fst (file_block (as_text_files e) cfg root ''D'' fp)
    \<and> filter is_fetch (snd (file_block e cfg root ''D'' fp))
         = filter is_fetch (snd (file_block (as_text_files e) cfg root ''D'' fp))"
proof -
  have a: "\<not> path_exists e (join_posix e root fp) \<and> CHR ''D'' \<in> set ''D''"
    using assms by simp
  have b: "path_exists (as_text_files e) (join_posix (as_text_files e) root fp)
         \<and> \<not> path_is_dir (as_text_files e) (join_posix (as_text_files e) root fp)
         \<and> \<not> is_binary_file (as_text_files e) (join_posix (as_text_files e) root fp)"
    by (simp add: as_text_files_def)
  show ?thesis
    unfolding file_block_text [OF disjI2 [OF a]] file_block_text [OF disjI1 [OF b]] Let_def
    using assms
    by (simp add: format_status_D dir_probes_def binary_probes_def as_text_files_def
          get_file_diff_def)
qed

theorem deleted_missing_file_is_diffed_witness:
  "\<not> path_exists demo_env (join_posix demo_env ''/r'' ''old.py'')
   \<and> file_block demo_env demo_config ''/r'' ''D'' ''old.py'' =
       ([nl @ ''/r/old.py (Deleted) '', ''---------------------'',
         ''--- a/old.py'', ''+++ /dev/null'', ''@@ -1 +0,0 @@'', ''-x'', ''''],
        [Print ''/r/old.py'', Exists ''/r/old.py'', Exists ''/r/old.py'', Exists ''/r/old.py'',
         Diff 3 ''/r/old.py''])"
proof -
  have a: "\<not> path_exists demo_env (join_posix demo_env ''/r'' ''old.py'')"
    by (simp add: demo_env_simps)
  from deleted_missing_file_is_diffed [OF a, of demo_config] a show ?thesis
    by (simp add: Let_def demo_env_simps demo_config_simps get_file_diff_def get_file_diff_of_def
          truncate_diff_def nl_def)
qed

text \<open>
  C9. The exception is a membership test on the status string: a missing file
  whose status contains the character \<open>D\<close> anywhere gets the block of a text
  file, header, separator, diff (or the no-diff line) and a blank line, and not
  the \<open>File not found\<close> line; after the three existence probes the stats (when
  on) and the diff are fetched.
\<close>

theorem status_containing_D_is_diffed:
  assumes "\<not> path_exists e (join_posix e root fp)" and "CHR ''D'' \<in> set status"
  shows "file_block e cfg root status fp =
     (let absolute_path = join_posix e root fp;
          stats = (if include_stats cfg then get_file_stats e absolute_path else '''');
          file_header = nl @ absolute_path @ '' ('' @ format_status status @ '') '' @ stats;
          diff_lines = get_file_diff e absolute_path (max_lines_per_file cfg) (context_lines cfg)
      in ([file_header, replicate (min (length file_header) 80) CHR ''-'']
            @ (if diff_lines \<noteq> [] then diff_lines else [''No diff available.''])
            @ [''''],
          [Print absolute_path, Exists absolute_path, Exists absolute_path, Exists absolute_path]
            @ (if include_stats cfg then [Numstat absolute_path] else [])
            @ [Diff (context_lines cfg) absolute_path]))
       \<and> fst (file_block e cfg root status fp)
           \<noteq> [nl @ ''File not found: '' @ fp @ '' ('' @ format_status status @ '')'']
       \<and> snd (file_block e cfg root status fp) =
           [Print (join_posix e root fp), Exists (join_posix e root fp),
            Exists (join_posix e root fp), Exists (join_posix e root fp)]
             @ (if include_stats cfg then [Numstat (join_posix e root fp)] else [])
             @ [Diff (context_lines cfg) (join_posix e root fp)]"
proof -
  have a: "\<not> path_exists e (join_posix e root fp) \<and> CHR ''D'' \<in> set status"
    using assms by simp
  show ?thesis
    unfolding file_block_text [OF disjI2 [OF a]] Let_def
    using assms by (simp add: dir_probes_def binary_probes_def)
qed

theorem status_containing_D_is_diffed_witness:
  "\<not> path_exists demo_env (join_posix demo_env ''/r'' ''zz.py'') \<and> CHR ''D'' \<in> set ''AD''
   \<and> file_block demo_env demo_config ''/r'' ''AD'' ''zz.py'' =
        ([nl @ ''/r/zz.py (AD) '', ''---------------'', ''No diff available.'', ''''],
         [Print ''/r/zz.py'', Exists ''/r/zz.py'', Exists ''/r/zz.py'', Exists ''/r/zz.py'',
          Diff 3 ''/r/zz.py''])
   \<and> fst (file_block demo_env demo_config ''/r'' ''AD'' ''zz.py'')
        \<noteq> [nl @ ''File not found: zz.py (AD)'']"
proof -
  have a: "\<not> path_exists demo_env (join_posix demo_env ''/r'' ''zz.py'')"
    by (simp add: demo_env_simps)
  have b: "CHR ''D'' \<in> set ''AD''"
    by simp
  from status_containing_D_is_diffed [OF a b, of demo_config] a b show ?thesis
    by (simp add: Let_def demo_env_simps demo_config_simps format_status_AD get_file_diff_def
          get_file_diff_of_def nl_def)
qed

subsection \<open>Deduplication\<close>

lemma filter_first_occurrences:
  "filter (\<lambda>c. snd c = p) (first_occurrences seen changes) =
     (if p \<in> seen then []
      else (case find (\<lambda>c. snd c = p) changes of None \<Rightarrow> [] | Some c \<Rightarrow> [c]))"
  by (induction seen changes rule: first_occurrences.induct) auto

lemma file_loop_blocks:
  "file_loop e cfg root changes st =
     \<lparr>output_lines = output_lines st
        @ concat (map (\<lambda>(status, filepath). fst (file_block e cfg root status filepath))
                    (first_occurrences (processed_files st) changes)),
      processed_files = processed_files st \<union> snd ` set changes,
      trace = trace st
        @ concat (map (\<lambda>(status, filepath). snd (file_block e cfg root status filepath))
                    (first_occurrences (processed_files st) changes))\<rparr>"
proof (induction changes arbitrary: st)
  case Nil
  then show ?case by simp
next
  case (Cons c changes)
  obtain status filepath where c: "c = (status, filepath)" by (cases c)
  show ?case
  proof (cases "filepath \<in> processed_files st")
    case True
    then show ?thesis using Cons.IH [of st] c by (simp add: insert_absorb)
  next
    case False
    then show ?thesis unfolding c
      by (simp add: Cons.IH split: prod.splits)
  qed
qed

lemma str_nat_3: "str_nat (Suc (Suc (Suc 0))) = ''3''"
  by code_simp

lemma rule_50: "replicate 50 CHR ''='' = ''==================================================''"
  by code_simp

text \<open>
  C7. When the root is found and the filter returns a list that is not empty, the
  report is the summary followed by the blocks of the first occurrences of the
  filtered changes, in order, and the calls made after the listing are exactly those of
  these blocks. A path that occurs in the filtered list, however often, has exactly
  one entry among the first occurrences, its first one: later entries add neither
  lines nor calls.
\<close>

theorem report_first_occurrence_only:
  assumes "get_repo_root e = Some root"
    and "filter_changes e (or_default (include_patterns cfg) [])
           (or_default (exclude_patterns cfg) default_exclude_patterns) (get_staged_changes e)
         = Inr filtered"
    and "filtered \<noteq> []"
  shows "get_staged_diff e cfg =
      (Inr (join nl
         ([''=== Staged Changes Summary ==='']
            @ (if group_by_type cfg then [file_types_line e filtered] else [])
            @ [nl @ ''Total files: '' @ str_nat (length filtered)]
            @ [replicate 50 CHR ''='']
            @ concat (map (\<lambda>(status, filepath). fst (file_block e cfg root status filepath))
                        (first_occurrences {} filtered)))),
       [RevParse, ListStaged]
         @ concat (map (\<lambda>(status, filepath). snd (file_block e cfg root status filepath))
                     (first_occurrences {} filtered)))
   \<and> (find (\<lambda>c. snd c = p) filtered = Some c \<longrightarrow>
        filter (\<lambda>c'. snd c' = p) (first_occurrences {} filtered) = [c])"
proof -
  have "get_staged_changes e \<noteq> []"
    using assms(2,3) by (cases "get_staged_changes e") auto
  then show ?thesis
    using assms unfolding get_staged_diff_def Let_def
    by (simp add: file_loop_blocks filter_first_occurrences)
qed

lemma demo_filtered:
  "filter_changes demo_env (or_default (include_patterns demo_config) [])
     (or_default (exclude_patterns demo_config) default_exclude_patterns)
     (get_staged_changes demo_env)
   = Inr [(''M'', ''a.py''), (''D'', ''old.py''), (''R100'', ''a.py'')]"
  by (simp add: demo_env_def demo_config_def or_default_def default_exclude_patterns_def
        should_include_file_def)

theorem report_first_occurrence_only_witness:
  "get_repo_root demo_env = Some ''/r''
   \<and> find (\<lambda>c. snd c = ''a.py'') [(''M'', ''a.py''), (''D'', ''old.py''), (''R100'', ''a.py'')]
       = Some (''M'', ''a.py'')
   \<and> filter (\<lambda>c'. snd c' = ''a.py'')
        (first_occurrences {} [(''M'', ''a.py''), (''D'', ''old.py''), (''R100'', ''a.py'')])
       = [(''M'', ''a.py'')]
   \<and> fst (get_staged_diff demo_env demo_config) =
       Inr (join nl
         ([''=== Staged Changes Summary ==='', nl @ ''Total files: 3'',
           ''=================================================='',
           nl @ ''/r/a.py (Modified) '', ''--------------------''] @ demo_diff @ ['''',
           nl @ ''/r/old.py (Deleted) '', ''---------------------'',
           ''--- a/old.py'', ''+++ /dev/null'', ''@@ -1 +0,0 @@'', ''-x'', '''']))
   \<and> snd (get_staged_diff demo_env demo_config) =
       [RevParse, ListStaged,
        Print ''/r/a.py'', Exists ''/r/a.py'', Exists ''/r/a.py'', IsDir ''/r/a.py'',
        Exists ''/r/a.py'', IsBinary ''/r/a.py'', Diff 3 ''/r/a.py'',
        Print ''/r/old.py'', Exists ''/r/old.py'', Exists ''/r/old.py'', Exists ''/r/old.py'',
        Diff 3 ''/r/old.py'']"
proof -
  have a: "get_repo_root demo_env = Some ''/r''"
    by (simp add: demo_env_def)
  have b: "[(''M'', ''a.py''), (''D'', ''old.py''), (''R100'', ''a.py'')] \<noteq> []"
    by simp
  have c: "find (\<lambda>c. snd c = ''a.py'') [(''M'', ''a.py''), (''D'', ''old.py''), (''R100'', ''a.py'')]
       = Some (''M'', ''a.py'')"
    by simp
  from report_first_occurrence_only [OF a demo_filtered b,
         of "''a.py''" "(''M'', ''a.py'')"] a c
  show ?thesis
    by (simp add: file_block_def Let_def demo_env_simps demo_config_simps dir_probes_def
          binary_probes_def str_nat_3 rule_50 format_status_M format_status_D get_file_diff_def
          get_file_diff_of_def truncate_diff_def demo_diff_def nl_def)
qed

end
